theory Spec2Isabelle
  imports Complex_Main
begin

section \<open>Real-time tone synthesis: the callback of \<open>generate_callback\<close>\<close>

text \<open>
  The notebook's streaming cell defines
  \<^verbatim>\<open>
  def generate_callback(amplitude, freqs, sampling_rate, queue=None):
      def callback(outdata, frames, time, status):
          if status:
              print(status, file=sys.stderr)
          if queue is not None and not queue.empty():
              code = queue.get()
              nonlocal freqs
              freqs = chords_dict.get(code, freqs)
          t = (callback.counter + np.arange(frames)) / sampling_rate
          t = t.reshape(-1, 1)
          outdata[:] = 0
          for f in freqs:
              outdata[:] += amplitude * np.sin(2 * np.pi * f * t)
          callback.counter += frames
      callback.counter = 0
      return callback
  \<close>
  Floating-point numbers are modelled by \<^typ>\<open>real\<close> (exact arithmetic), Python's unbounded
  integers by \<^typ>\<open>nat\<close> where they count samples. The closure's captured variables and the
  function attribute \<open>callback.counter\<close> form a record that is passed in and returned
  updated. The queue is the content of a \<open>queue.Queue\<close>, oldest entry first; \<open>None\<close> is the
  default argument \<open>queue=None\<close>. The global \<open>chords_dict\<close> is built from a CSV file that is
  not part of the sources, so the callback takes the dictionary as its first parameter.
  The \<open>status\<close> flag is only printed and \<open>time\<close> is not read, so neither is a parameter.
  \<open>outdata\<close> arrives with shape (frames, channels) and is overwritten completely; the
  model returns it as \<open>frames\<close> rows of \<open>channels\<close> samples.
\<close>

type_synonym chords = "string \<rightharpoonup> real list"

record closure =
  amplitude :: real
  freqs :: "real list"
  sampling_rate :: real
  counter :: nat

record callback_result =
  outdata :: "real list list"
  closure_after :: closure
  queue_after :: "string list option"

text \<open>\<open>d.get(k, default)\<close> of a Python dictionary.\<close>

definition dict_get :: "('k \<rightharpoonup> 'v) \<Rightarrow> 'k \<Rightarrow> 'v \<Rightarrow> 'v" where
  "dict_get d k dflt = (case d k of None \<Rightarrow> dflt | Some v \<Rightarrow> v)"

text \<open>\<open>queue.put(code)\<close>: the controller appends at the back of the FIFO.\<close>

definition put :: "string list option \<Rightarrow> string \<Rightarrow> string list option" where
  "put queue code = map_option (\<lambda>q. q @ [code]) queue"

definition np_arange :: "nat \<Rightarrow> nat list" where
  "np_arange n = [0..<n]"

text \<open>
  \<open>outdata[:] += col\<close> where \<open>outdata\<close> has shape (frames, channels) and \<open>col\<close> has shape
  (frames, 1): the column is broadcast to every channel.
\<close>

definition add_column :: "real list list \<Rightarrow> real list \<Rightarrow> real list list" where
  "add_column out col = map2 (\<lambda>row v. map (\<lambda>x. x + v) row) out col"

definition callback :: "chords \<Rightarrow> closure \<Rightarrow> string list option \<Rightarrow> nat \<Rightarrow> nat \<Rightarrow> callback_result" where
  "callback cdict cl queue frames channels =
     (let freqs' = (case queue of
                      Some (code # rest) \<Rightarrow> dict_get cdict code (freqs cl)
                    | _ \<Rightarrow> freqs cl);
          queue' = (case queue of
                      Some (code # rest) \<Rightarrow> Some rest
                    | _ \<Rightarrow> queue);
          t = map (\<lambda>i. real (counter cl + i) / sampling_rate cl) (np_arange frames);
          zero = replicate frames (replicate channels 0);
          out = foldl (\<lambda>out f. add_column out (map (\<lambda>x. amplitude cl * sin (2 * pi * f * x)) t))
                  zero freqs'
      in \<lparr>outdata = out,
          closure_after = cl\<lparr>freqs := freqs', counter := counter cl + frames\<rparr>,
          queue_after = queue'\<rparr>)"

definition generate_callback :: "real \<Rightarrow> real list \<Rightarrow> real \<Rightarrow> closure" where
  "generate_callback amp fs rate =
     \<lparr>amplitude = amp, freqs = fs, sampling_rate = rate, counter = 0\<rparr>"

subsection \<open>The chord dictionary of the notebook\<close>

text \<open>
  \<open>chords_dict\<close> after the dictionary comprehension \<open>{k: list(map(note2freq, code)) ...}\<close>,
  with the frequencies that the notebook prints for \<open>df_notes\<close> (for example C3 = 130.81,
  A4 = 440.0). It is the dictionary used in the concrete runs below.
\<close>

definition chords_dict :: chords where
  "chords_dict = map_of
     [(''C'',  [130.81, 164.81, 196.00, 261.63, 329.63]),
      (''Cm'', [130.81, 155.56, 196.00, 261.63, 311.13]),
      (''D'',  [146.83, 185.00, 220.0, 293.66, 369.99]),
      (''Dm'', [146.83, 174.61, 220.0, 293.66, 349.23]),
      (''E'',  [82.41, 123.47, 207.65, 246.94, 329.63]),
      (''Em'', [82.41, 123.47, 196.00, 246.94, 329.63]),
      (''F'',  [174.61, 220.0, 261.63, 349.23, 440.0]),
      (''Fm'', [174.61, 207.65, 261.63, 349.23, 415.30]),
      (''G'',  [98.00, 123.47, 146.83, 196.00, 246.94]),
      (''Gm'', [98.00, 116.54, 146.83, 196.00, 233.08]),
      (''A'',  [110.0, 164.81, 220.0, 277.18, 440.0]),
      (''Am'', [110.0, 164.81, 220.0, 261.63, 440.0]),
      (''B'',  [123.47, 185.00, 246.94, 311.13, 369.99]),
      (''Bm'', [123.47, 185.00, 246.94, 293.66, 369.99])]"

subsection \<open>Streams\<close>

text \<open>
  Both streaming cells have the same shape:
  \<^verbatim>\<open>
  callback = generate_callback(amplitude=0.2, freqs=..., sampling_rate=sampling_rate, queue=queue)
  with sd.OutputStream(channels=1, callback=callback, samplerate=sampling_rate):
      ...  queue.put(ret)  ...
  \<close>
  The global variable \<open>callback\<close> is bound to a new closure, then the stream is opened
  with one channel; while it is open the driver calls the closure once per buffer and the
  main thread may post codes; leaving the \<open>with\<close> block stops the stream. The closure stays
  bound to \<open>callback\<close> after the stop, with the counter it has reached. The player state
  holds that variable, the queue object, whether a stream is open, and the buffers handed
  to the driver so far.
\<close>

datatype stream_status = Idle | Active

record player =
  callback_var :: closure
  queue_var :: "string list option"
  status :: stream_status
  emitted :: "real list list list"


definition buffer_request :: "chords \<Rightarrow> nat \<Rightarrow> player \<Rightarrow> player" where
  "buffer_request cdict frames p =
     (if status p = Active
      then (let r = callback cdict (callback_var p) (queue_var p) frames 1
            in p\<lparr>callback_var := closure_after r, queue_var := queue_after r,
                 emitted := emitted p @ [outdata r]\<rparr>)
      else p)"

definition post :: "string \<Rightarrow> player \<Rightarrow> player" where
  "post code p = p\<lparr>queue_var := put (queue_var p) code\<rparr>"


section \<open>Fade effects: \<open>fade_in\<close> and \<open>fade_out\<close>\<close>

text \<open>
  \<^verbatim>\<open>
  def fade_in(data, duration=0.1, sampling_rate=44100, mode="linear"):
      t = np.linspace(0, duration, int(sampling_rate * duration), endpoint=False)
      if mode == "linear":
          fade = t / duration
      elif mode == "sine":
          fade = np.sin(2 * np.pi * t * 0.25/duration)
      elif mode == "sine-squared":
          fade = np.sin(2 * np.pi * t * 0.25/duration)**2
      else:
          raise ValueError("Invalid mode. Options: 'linear', 'sine', 'sine-squared'")
      data = data.copy()
      n = min(len(fade), len(data))
      data[:n] *= fade[:n]
      return data
  \<close>
  \<open>fade_out\<close> differs in the envelopes (\<open>1 - t / duration\<close>, \<open>np.cos(...)\<close>, \<open>np.cos(...)**2\<close>),
  in having no \<open>else\<close> branch, and in its last statement \<open>data[-n:] *= fade[-n:]\<close>.

  The arrays are one-dimensional arrays of floats, as the notebook passes them (samples of
  a mono signal), with \<^typ>\<open>real\<close> for the floats. They live in a store, a list of arrays
  addressed by position, so that
  copying and writing in place are visible: \<open>data.copy()\<close> allocates the next address, and
  the multiplication writes through the slice into the array at that address. The arrays
  \<open>t\<close> and \<open>fade\<close> are local and never shared, so they are plain values. Exceptions are
  values of \<open>error\<close>; the store is returned in either case.
\<close>

datatype error =
    ValueError string        \<comment> \<open>the message\<close>
  | UnboundLocalError string \<comment> \<open>the name of the local variable read before assignment\<close>

type_synonym ndarray = "real list"
type_synonym heap = "ndarray list"

text \<open>\<open>int(x)\<close> on a float truncates towards zero.\<close>

definition py_int :: "real \<Rightarrow> int" where
  "py_int x = (if 0 \<le> x then \<lfloor>x\<rfloor> else \<lceil>x\<rceil>)"

text \<open>
  \<open>np.linspace(start, stop, num, endpoint=False)\<close>: \<open>num\<close> points \<open>start + i * step\<close> with
  \<open>step = (stop - start) / num\<close>; a negative \<open>num\<close> raises ValueError (numpy's message
  also names the number).
\<close>

definition np_linspace :: "real \<Rightarrow> real \<Rightarrow> int \<Rightarrow> error + ndarray" where
  "np_linspace start stop num =
     (if num < 0 then Inl (ValueError ''Number of samples must be non-negative.'')
      else Inr (map (\<lambda>i. real i * ((stop - start) / real_of_int num) + start) [0..<nat num]))"

text \<open>
  The two slices the fades take, for a length \<open>n \<ge> 0\<close>: \<open>xs[:n]\<close> is the first \<open>n\<close>
  elements; \<open>xs[-n:]\<close> is the last \<open>n\<close> elements, except that \<open>-0\<close> is \<open>0\<close>, so that
  \<open>xs[-0:]\<close> is all of \<open>xs\<close>.
\<close>

definition slice_to :: "nat \<Rightarrow> 'a list \<Rightarrow> 'a list" where
  "slice_to n xs = take n xs"

definition slice_last :: "nat \<Rightarrow> 'a list \<Rightarrow> 'a list" where
  "slice_last n xs = (if n = 0 then xs else drop (length xs - n) xs)"

text \<open>
  \<open>view *= operand\<close> for one-dimensional arrays: the operand must have the length of the
  view or length 1 (it is then broadcast); the view itself is never broadcast, and any
  other pair of shapes raises ValueError (numpy's message also names the shapes).
\<close>

definition np_imul :: "ndarray \<Rightarrow> ndarray \<Rightarrow> error + ndarray" where
  "np_imul view operand =
     (if length operand = length view then Inr (map2 (*) view operand)
      else if length operand = 1 then Inr (map (\<lambda>x. x * hd operand) view)
      else Inl (ValueError ''operands could not be broadcast together''))"

definition quoted :: "string \<Rightarrow> string" where
  "quoted s = CHR 0x27 # s @ [CHR 0x27]"

definition invalid_mode_message :: string where
  "invalid_mode_message =
     ''Invalid mode. Options: '' @ quoted ''linear'' @ '', '' @ quoted ''sine'' @ '', ''
       @ quoted ''sine-squared''"

definition fade_in :: "heap \<Rightarrow> nat \<Rightarrow> real \<Rightarrow> real \<Rightarrow> string \<Rightarrow> heap \<times> (error + nat)" where
  "fade_in h data duration rate mode =
     (case np_linspace 0 duration (py_int (rate * duration)) of
        Inl e \<Rightarrow> (h, Inl e)
      | Inr t \<Rightarrow>
          (case (if mode = ''linear'' then Inr (map (\<lambda>x. x / duration) t)
                 else if mode = ''sine'' then
                   Inr (map (\<lambda>x. sin (2 * pi * x * 0.25 / duration)) t)
                 else if mode = ''sine-squared'' then
                   Inr (map (\<lambda>x. (sin (2 * pi * x * 0.25 / duration))\<^sup>2) t)
                 else Inl (ValueError invalid_mode_message)) of
             Inl e \<Rightarrow> (h, Inl e)
           | Inr fade \<Rightarrow>
               (let h1 = h @ [h ! data];
                    copy = length h;
                    n = min (length fade) (length (h1 ! copy))
                in case np_imul (slice_to n (h1 ! copy)) (slice_to n fade) of
                     Inl e \<Rightarrow> (h1, Inl e)
                   | Inr v \<Rightarrow> (h1[copy := v @ drop (length v) (h1 ! copy)], Inr copy))))"

definition fade_out :: "heap \<Rightarrow> nat \<Rightarrow> real \<Rightarrow> real \<Rightarrow> string \<Rightarrow> heap \<times> (error + nat)" where
  "fade_out h data duration rate mode =
     (case np_linspace 0 duration (py_int (rate * duration)) of
        Inl e \<Rightarrow> (h, Inl e)
      | Inr t \<Rightarrow>
          (let fade = (if mode = ''linear'' then Some (map (\<lambda>x. 1 - x / duration) t)
                       else if mode = ''sine'' then
                         Some (map (\<lambda>x. cos (2 * pi * x * 0.25 / duration)) t)
                       else if mode = ''sine-squared'' then
                         Some (map (\<lambda>x. (cos (2 * pi * x * 0.25 / duration))\<^sup>2) t)
                       else None);
               h1 = h @ [h ! data];
               copy = length h
           in case fade of
                None \<Rightarrow> (h1, Inl (UnboundLocalError ''fade''))
              | Some fade \<Rightarrow>
                  (let n = min (length fade) (length (h1 ! copy))
                   in case np_imul (slice_last n (h1 ! copy)) (slice_last n fade) of
                        Inl e \<Rightarrow> (h1, Inl e)
                      | Inr v \<Rightarrow>
                          (h1[copy := take (length (h1 ! copy) - length v) (h1 ! copy) @ v],
                           Inr copy))))"

section \<open>Properties of the callback\<close>

subsection \<open>Lemmas about the buffer loop\<close>

lemma length_add_column:
  "length col = length out \<Longrightarrow> length (add_column out col) = length out"
  by (simp add: add_column_def)

lemma length_fold_add_column:
  "length acc = n \<Longrightarrow>
   length (foldl (\<lambda>out f. add_column out (map (g f) [0..<n])) acc fs) = n"
  by (induction fs arbitrary: acc) (simp_all add: length_add_column)

lemma nth_add_column:
  "i < length out \<Longrightarrow> length col = length out \<Longrightarrow> k < length (out ! i) \<Longrightarrow>
   add_column out col ! i ! k = out ! i ! k + col ! i"
  by (simp add: add_column_def)

lemma row_length_add_column:
  "i < length out \<Longrightarrow> length col = length out \<Longrightarrow>
   length (add_column out col ! i) = length (out ! i)"
  by (simp add: add_column_def)


lemma nth_fold_add_column:
  "length acc = n \<Longrightarrow> i < n \<Longrightarrow> k < length (acc ! i) \<Longrightarrow>
   foldl (\<lambda>out f. add_column out (map (g f) [0..<n])) acc fs ! i ! k
     = acc ! i ! k + (\<Sum>f\<leftarrow>fs. g f i)"
proof (induction fs arbitrary: acc)
  case Nil
  then show ?case by simp
next
  case (Cons f fs)
  let ?acc = "add_column acc (map (g f) [0..<n])"
  have len: "length ?acc = n"
    using Cons.prems by (simp add: length_add_column)
  have row: "k < length (?acc ! i)"
    using Cons.prems by (simp add: row_length_add_column)
  have step: "?acc ! i ! k = acc ! i ! k + g f i"
    using Cons.prems by (simp add: nth_add_column)
  show ?case
    using Cons.IH [OF len Cons.prems(2) row] step by simp
qed


lemma callback_outdata_length:
  "length (outdata (callback cdict cl queue frames channels)) = frames"
  by (simp add: callback_def Let_def np_arange_def length_fold_add_column)


lemma callback_sample:
  assumes "i < frames" and "k < channels"
  shows "outdata (callback cdict cl queue frames channels) ! i ! k
         = (\<Sum>f\<leftarrow>freqs (closure_after (callback cdict cl queue frames channels)).
              amplitude cl * sin (2 * pi * f * real (counter cl + i) / sampling_rate cl))"
proof -
  let ?zero = "replicate frames (replicate channels (0::real))"
  have len: "length ?zero = frames" by simp
  have row: "k < length (?zero ! i)" using assms by simp
  have "foldl (\<lambda>out f. add_column out (map (\<lambda>j. amplitude cl * sin (2 * pi * f * (real (counter cl + j) / sampling_rate cl))) [0..<frames])) ?zero fs ! i ! k
     = ?zero ! i ! k + (\<Sum>f\<leftarrow>fs. amplitude cl * sin (2 * pi * f * (real (counter cl + i) / sampling_rate cl)))" for fs
    by (rule nth_fold_add_column [OF len assms(1) row])
  then show ?thesis
    using assms by (simp add: callback_def Let_def np_arange_def comp_def)
qed

lemma callback_freqs_after:
  "freqs (closure_after (callback cdict cl queue frames channels))
     = (case queue of Some (code # rest) \<Rightarrow> dict_get cdict code (freqs cl) | _ \<Rightarrow> freqs cl)"
  by (simp add: callback_def Let_def)


lemma callback_closure_after:
  "closure_after (callback cdict cl queue frames channels)
     = cl\<lparr>freqs := (case queue of Some (code # rest) \<Rightarrow> dict_get cdict code (freqs cl)
                       | _ \<Rightarrow> freqs cl),
          counter := counter cl + frames\<rparr>"
  by (simp add: callback_def Let_def)

lemma callback_queue_after:
  "queue_after (callback cdict cl queue frames channels)
     = (case queue of Some (code # rest) \<Rightarrow> Some rest | _ \<Rightarrow> queue)"
  by (simp add: callback_def Let_def)

lemma callback_outdata_freqs:
  "outdata (callback cdict cl queue frames channels)
     = outdata (callback cdict
         (cl\<lparr>freqs := freqs (closure_after (callback cdict cl queue frames channels))\<rparr>)
         None frames channels)"
  by (simp add: callback_def Let_def)

subsection \<open>Superposition\<close>




subsection \<open>Phase continuity\<close>





subsection \<open>Unknown chord codes\<close>

text \<open>
  Claim C3. If the code taken from the queue before a buffer is not a key of the chord
  dictionary, the frequency set is unchanged: the closure keeps exactly the frequencies it
  had (only its counter advances), the buffer is the one the callback would have produced
  had there been no queue at all, and it is produced in full. The callback has no failing
  path, so the model returns a result for every input.
\<close>

theorem callback_unknown_code:
  assumes "cdict code = None"
  shows "freqs (closure_after (callback cdict cl (Some (code # rest)) frames channels)) = freqs cl
       \<and> outdata (callback cdict cl (Some (code # rest)) frames channels)
           = outdata (callback cdict cl None frames channels)
       \<and> length (outdata (callback cdict cl (Some (code # rest)) frames channels)) = frames
       \<and> closure_after (callback cdict cl (Some (code # rest)) frames channels)
           = cl\<lparr>counter := counter cl + frames\<rparr>"
proof -
  have f: "freqs (closure_after (callback cdict cl (Some (code # rest)) frames channels)) = freqs cl"
    using assms by (simp add: callback_freqs_after dict_get_def)
  have "outdata (callback cdict cl (Some (code # rest)) frames channels)
          = outdata (callback cdict (cl\<lparr>freqs := freqs cl\<rparr>) None frames channels)"
    using callback_outdata_freqs [of cdict cl "Some (code # rest)" frames channels]
    by (simp only: f)
  then have o: "outdata (callback cdict cl (Some (code # rest)) frames channels)
          = outdata (callback cdict cl None frames channels)"
    by simp
  have c: "closure_after (callback cdict cl (Some (code # rest)) frames channels)
           = cl\<lparr>counter := counter cl + frames\<rparr>"
    using assms by (simp add: callback_closure_after dict_get_def)
  show ?thesis
    using f o c by (simp add: callback_outdata_length)
qed

theorem callback_unknown_code_witness:
  "chords_dict ''H'' = None
   \<and> freqs (closure_after (callback chords_dict (generate_callback 0.2 [130.81, 164.81] 44100)
        (Some [''H'', ''Am'']) 4 1)) = [130.81, 164.81]
   \<and> length (outdata (callback chords_dict (generate_callback 0.2 [130.81, 164.81] 44100)
        (Some [''H'', ''Am'']) 4 1)) = 4"
proof -
  have h: "chords_dict ''H'' = None"
    by (simp add: chords_dict_def)
  show ?thesis
    using h callback_unknown_code
      [where cdict = chords_dict and code = "''H''" and rest = "[''Am'']" and frames = 4
         and channels = 1 and cl = "generate_callback 0.2 [130.81, 164.81] 44100"]
    by (simp add: generate_callback_def callback_outdata_length)
qed

subsection \<open>One code per buffer, oldest first\<close>

text \<open>
  Claim C4, as amended. The callback takes at most one pending code per buffer, and it is
  the oldest one: from a non-empty queue exactly the head is removed and looked up, also
  when a newer code has been posted behind it; an empty or absent queue is left as it is.
  In particular, after \<open>Am\<close> and then \<open>Em\<close> have been posted to an empty queue, the next
  buffer consumes \<open>Am\<close> and leaves \<open>Em\<close> queued, and the buffer after that consumes \<open>Em\<close>.
\<close>

theorem callback_consumes_oldest:
  "queue_after (callback cdict cl (Some (code # rest)) frames channels) = Some rest
   \<and> freqs (closure_after (callback cdict cl (Some (code # rest)) frames channels))
       = dict_get cdict code (freqs cl)
   \<and> queue_after (callback cdict cl (put (Some (code # rest)) newer) frames channels)
       = put (Some rest) newer
   \<and> freqs (closure_after (callback cdict cl (put (Some (code # rest)) newer) frames channels))
       = dict_get cdict code (freqs cl)
   \<and> queue_after (callback cdict cl (Some []) frames channels) = Some []
   \<and> freqs (closure_after (callback cdict cl (Some []) frames channels)) = freqs cl
   \<and> queue_after (callback cdict cl None frames channels) = None
   \<and> freqs (closure_after (callback cdict cl None frames channels)) = freqs cl
   \<and> queue_after (callback cdict cl (put (put (Some []) ''Am'') ''Em'') frames channels)
       = Some [''Em'']
   \<and> freqs (closure_after (callback cdict cl (put (put (Some []) ''Am'') ''Em'') frames channels))
       = dict_get cdict ''Am'' (freqs cl)
   \<and> queue_after (callback cdict
         (closure_after (callback cdict cl (put (put (Some []) ''Am'') ''Em'') frames channels))
         (queue_after (callback cdict cl (put (put (Some []) ''Am'') ''Em'') frames channels))
         frames2 channels) = Some []
   \<and> freqs (closure_after (callback cdict
         (closure_after (callback cdict cl (put (put (Some []) ''Am'') ''Em'') frames channels))
         (queue_after (callback cdict cl (put (put (Some []) ''Am'') ''Em'') frames channels))
         frames2 channels))
       = dict_get cdict ''Em'' (dict_get cdict ''Am'' (freqs cl))"
  by (simp add: callback_queue_after callback_freqs_after put_def)

text \<open>
  The claim as first written says that after \<open>Am\<close> and \<open>Em\<close> have been posted only \<open>Em\<close>
  is seen at the next consumption. With the notebook's dictionary and the closure of the
  second streaming cell, the next buffer is computed with the frequencies of \<open>Am\<close>, which
  are not those of \<open>Em\<close>, and \<open>Em\<close> is still in the queue afterwards.
\<close>

theorem callback_am_em_counterexample:
  "freqs (closure_after (callback chords_dict (generate_callback 0.2 [130.81, 164.81, 196.00, 261.63, 329.63] 44100)
       (put (put (Some []) ''Am'') ''Em'') 4 1))
     = [110.0, 164.81, 220.0, 261.63, 440.0]
   \<and> chords_dict ''Em'' = Some [82.41, 123.47, 196.00, 246.94, 329.63]
   \<and> freqs (closure_after (callback chords_dict (generate_callback 0.2 [130.81, 164.81, 196.00, 261.63, 329.63] 44100)
       (put (put (Some []) ''Am'') ''Em'') 4 1))
     \<noteq> [82.41, 123.47, 196.00, 246.94, 329.63]
   \<and> queue_after (callback chords_dict (generate_callback 0.2 [130.81, 164.81, 196.00, 261.63, 329.63] 44100)
       (put (put (Some []) ''Am'') ''Em'') 4 1) = Some [''Em'']"
  by (simp add: callback_queue_after callback_freqs_after put_def dict_get_def chords_dict_def
      generate_callback_def)


subsection \<open>One frequency set per buffer\<close>

text \<open>
  Claim C6. Every buffer is computed with exactly one frequency set. The set is fixed by
  the closure and the queue as they are before sample generation starts (the head of the
  queue looked up in the dictionary, or the set held so far); it is the set the closure
  holds afterwards; the whole buffer is the buffer a closure holding that set computes
  without any queue; and every sample of every channel is the sum over that one set.
\<close>

theorem callback_one_frequency_set:
  "freqs (closure_after (callback cdict cl queue frames channels))
     = (case queue of Some (code # rest) \<Rightarrow> dict_get cdict code (freqs cl) | _ \<Rightarrow> freqs cl)
   \<and> outdata (callback cdict cl queue frames channels)
     = outdata (callback cdict
         (cl\<lparr>freqs := freqs (closure_after (callback cdict cl queue frames channels))\<rparr>)
         None frames channels)
   \<and> (\<forall>i<frames. \<forall>k<channels.
         outdata (callback cdict cl queue frames channels) ! i ! k
           = (\<Sum>f\<leftarrow>freqs (closure_after (callback cdict cl queue frames channels)).
                amplitude cl * sin (2 * pi * f * real (counter cl + i) / sampling_rate cl)))"
proof (intro conjI allI impI)
  show "freqs (closure_after (callback cdict cl queue frames channels))
     = (case queue of Some (code # rest) \<Rightarrow> dict_get cdict code (freqs cl) | _ \<Rightarrow> freqs cl)"
    by (rule callback_freqs_after)
next
  show "outdata (callback cdict cl queue frames channels)
     = outdata (callback cdict
         (cl\<lparr>freqs := freqs (closure_after (callback cdict cl queue frames channels))\<rparr>)
         None frames channels)"
    by (rule callback_outdata_freqs)
next
  fix i k
  assume "i < frames" and "k < channels"
  then show "outdata (callback cdict cl queue frames channels) ! i ! k
           = (\<Sum>f\<leftarrow>freqs (closure_after (callback cdict cl queue frames channels)).
                amplitude cl * sin (2 * pi * f * real (counter cl + i) / sampling_rate cl))"
    by (rule callback_sample)
qed

theorem callback_one_frequency_set_witness:
  "(1::nat) < 2 \<and> (0::nat) < 1
   \<and> freqs (closure_after (callback chords_dict (generate_callback 0.2 [440] 44100) (Some [''Am'']) 2 1))
     = [110.0, 164.81, 220.0, 261.63, 440.0]
   \<and> outdata (callback chords_dict (generate_callback 0.2 [440] 44100) (Some [''Am'']) 2 1) ! 1 ! 0
     = (\<Sum>f\<leftarrow>[110.0, 164.81, 220.0, 261.63, 440.0]. 0.2 * sin (2 * pi * f * 1 / 44100))"
proof -
  have f: "freqs (closure_after (callback chords_dict (generate_callback 0.2 [440] 44100) (Some [''Am'']) 2 1))
     = [110.0, 164.81, 220.0, 261.63, 440.0]"
    by (simp add: callback_freqs_after dict_get_def chords_dict_def generate_callback_def)
  have every: "\<forall>i<2. \<forall>k<1.
         outdata (callback chords_dict (generate_callback 0.2 [440] 44100) (Some [''Am'']) 2 1) ! i ! k
           = (\<Sum>f\<leftarrow>freqs (closure_after (callback chords_dict (generate_callback 0.2 [440] 44100) (Some [''Am'']) 2 1)).
                amplitude (generate_callback 0.2 [440] 44100)
                  * sin (2 * pi * f * real (counter (generate_callback 0.2 [440] 44100) + i)
                      / sampling_rate (generate_callback 0.2 [440] 44100)))"
    using callback_one_frequency_set
      [of chords_dict "generate_callback 0.2 [440] 44100" "Some [''Am'']" 2 1]
    by blast
  have "outdata (callback chords_dict (generate_callback 0.2 [440] 44100) (Some [''Am'']) 2 1) ! 1 ! 0
           = (\<Sum>f\<leftarrow>freqs (closure_after (callback chords_dict (generate_callback 0.2 [440] 44100) (Some [''Am'']) 2 1)).
                amplitude (generate_callback 0.2 [440] 44100)
                  * sin (2 * pi * f * real (counter (generate_callback 0.2 [440] 44100) + 1)
                      / sampling_rate (generate_callback 0.2 [440] 44100)))"
    by (rule every [rule_format, of 1 0]) simp_all
  with f show ?thesis
    by (simp add: generate_callback_def)
qed

section \<open>Properties of streams\<close>

lemma player_fifo:
  assumes "status p = Active" and "queue_var p = Some []"
  shows "queue_var (buffer_request cdict frames (post ''Em'' (post ''Am'' p))) = Some [''Em'']
       \<and> freqs (callback_var (buffer_request cdict frames (post ''Em'' (post ''Am'' p))))
           = dict_get cdict ''Am'' (freqs (callback_var p))"
  using assms
  by (simp add: buffer_request_def post_def put_def Let_def callback_queue_after
      callback_freqs_after)






section \<open>Properties of the fades\<close>

lemma np_linspace_ok:
  "0 \<le> num \<Longrightarrow>
   np_linspace a b num = Inr (map (\<lambda>i. real i * ((b - a) / real_of_int num) + a) [0..<nat num])"
  by (simp add: np_linspace_def)

lemma np_linspace_negative:
  "num < 0 \<Longrightarrow> np_linspace a b num = Inl (ValueError ''Number of samples must be non-negative.'')"
  by (simp add: np_linspace_def)

lemma np_imul_same_length:
  "length ys = length xs \<Longrightarrow> np_imul xs ys = Inr (map2 (*) xs ys)"
  by (simp add: np_imul_def)

lemma np_imul_error:
  "length ys \<noteq> length xs \<Longrightarrow> length ys \<noteq> 1 \<Longrightarrow>
   np_imul xs ys = Inl (ValueError ''operands could not be broadcast together'')"
  by (simp add: np_imul_def)

lemma fade_in_invalid_mode:
  assumes "mode \<noteq> ''linear''" and "mode \<noteq> ''sine''" and "mode \<noteq> ''sine-squared''"
    and "0 \<le> py_int (rate * duration)"
  shows "fade_in h data duration rate mode = (h, Inl (ValueError invalid_mode_message))"
  using assms by (simp add: fade_in_def np_linspace_ok)

lemma fade_out_invalid_mode:
  assumes "mode \<noteq> ''linear''" and "mode \<noteq> ''sine''" and "mode \<noteq> ''sine-squared''"
    and "0 \<le> py_int (rate * duration)"
  shows "fade_out h data duration rate mode = (h @ [h ! data], Inl (UnboundLocalError ''fade''))"
  using assms by (simp add: fade_out_def np_linspace_ok Let_def)

lemma imul_prefix:
  "np_imul (slice_to (min (length fade) (length x)) x) (slice_to (min (length fade) (length x)) fade)
     = Inr (map2 (*) x fade)"
proof -
  let ?n = "min (length fade) (length x)"
  have "zip (take ?n x) (take ?n fade) = zip x fade"
    by (simp add: take_zip [symmetric])
  then show ?thesis
    by (simp add: slice_to_def np_imul_def)
qed

lemma drop_scaled_prefix:
  "drop (length (map2 (*) x fade)) x = drop (length fade) (x :: real list)"
  by (cases "length fade \<le> length x") (simp_all add: min_def)

lemma fade_in_body:
  "(let h1 = h @ [h ! data]; copy = length h; n = min (length fade) (length (h1 ! copy))
    in case np_imul (slice_to n (h1 ! copy)) (slice_to n fade) of
         Inl e \<Rightarrow> (h1, Inl e)
       | Inr v \<Rightarrow> (h1[copy := v @ drop (length v) (h1 ! copy)], Inr copy))
   = (h @ [map2 (*) (h ! data) fade @ drop (length fade) (h ! data)], Inr (length h))"
  by (simp only: Let_def nth_append_length imul_prefix sum.case drop_scaled_prefix
      list_update_length)

lemma fade_in_returns:
  assumes "mode = ''linear'' \<or> mode = ''sine'' \<or> mode = ''sine-squared''"
    and "0 \<le> py_int (rate * duration)"
  shows "\<exists>fade. length fade = nat (py_int (rate * duration)) \<and>
     fade_in h data duration rate mode
       = (h @ [map2 (*) (h ! data) fade @ drop (length fade) (h ! data)], Inr (length h))"
proof -
  let ?t = "map (\<lambda>i. real i * ((duration - 0) / real_of_int (py_int (rate * duration))) + 0)
              [0..<nat (py_int (rate * duration))]"
  have lin: "np_linspace 0 duration (py_int (rate * duration)) = Inr ?t"
    using assms(2) by (rule np_linspace_ok)
  have body: "fade_in h data duration rate mode
      = (case (if mode = ''linear'' then Inr (map (\<lambda>x. x / duration) ?t)
               else if mode = ''sine'' then
                 Inr (map (\<lambda>x. sin (2 * pi * x * 0.25 / duration)) ?t)
               else if mode = ''sine-squared'' then
                 Inr (map (\<lambda>x. (sin (2 * pi * x * 0.25 / duration))\<^sup>2) ?t)
               else Inl (ValueError invalid_mode_message)) of
           Inl e \<Rightarrow> (h, Inl e)
         | Inr fade \<Rightarrow>
             (h @ [map2 (*) (h ! data) fade @ drop (length fade) (h ! data)], Inr (length h)))"
    unfolding fade_in_def lin fade_in_body by simp
  from assms(1) consider "mode = ''linear''" | "mode = ''sine''" | "mode = ''sine-squared''"
    by blast
  then show ?thesis
  proof cases
    case 1
    show ?thesis
      unfolding body using 1 by (intro exI [of _ "map (\<lambda>x. x / duration) ?t"]) simp
  next
    case 2
    show ?thesis
      unfolding body using 2 by (intro exI [of _ "map (\<lambda>x. sin (2 * pi * x * 0.25 / duration)) ?t"]) simp
  next
    case 3
    show ?thesis
      unfolding body using 3
      by (intro exI [of _ "map (\<lambda>x. (sin (2 * pi * x * 0.25 / duration))\<^sup>2) ?t"]) simp
  qed
qed

lemma fade_in_spec:
  assumes "mode = ''linear'' \<or> mode = ''sine'' \<or> mode = ''sine-squared''"
    and "0 \<le> py_int (rate * duration)"
    and "data < length h"
  shows "\<exists>h' fade. fade_in h data duration rate mode = (h', Inr (length h))
     \<and> length fade = nat (py_int (rate * duration))
     \<and> length h' = Suc (length h)
     \<and> take (length h) h' = h
     \<and> h' ! data = h ! data
     \<and> length (h' ! length h) = length (h ! data)
     \<and> (\<forall>i<length (h ! data).
           h' ! length h ! i
             = (if i < length fade then h ! data ! i * fade ! i else h ! data ! i))"
proof -
  obtain fade where len: "length fade = nat (py_int (rate * duration))"
    and res: "fade_in h data duration rate mode
       = (h @ [map2 (*) (h ! data) fade @ drop (length fade) (h ! data)], Inr (length h))"
    using fade_in_returns [OF assms(1,2)] by blast
  let ?x = "h ! data"
  let ?new = "map2 (*) ?x fade @ drop (length fade) ?x"
  have l: "length ?new = length ?x"
    by simp
  have v: "?new ! i = (if i < length fade then ?x ! i * fade ! i else ?x ! i)"
    if "i < length ?x" for i
    using that by (simp add: nth_append)
  have old: "(h @ [?new]) ! data = ?x"
    using assms(3) by (simp add: nth_append)
  show ?thesis
    using res len l v old by (intro exI [of _ "h @ [?new]"] exI [of _ fade]) simp
qed

lemma fade_out_unfold:
  assumes "mode = ''linear'' \<or> mode = ''sine'' \<or> mode = ''sine-squared''"
    and "0 \<le> py_int (rate * duration)"
  shows "\<exists>fade. length fade = nat (py_int (rate * duration)) \<and>
     fade_out h data duration rate mode
       = (case np_imul (slice_last (min (length fade) (length (h ! data))) (h ! data))
                 (slice_last (min (length fade) (length (h ! data))) fade) of
            Inl e \<Rightarrow> (h @ [h ! data], Inl e)
          | Inr v \<Rightarrow> (h @ [take (length (h ! data) - length v) (h ! data) @ v], Inr (length h)))"
proof -
  let ?t = "map (\<lambda>i. real i * ((duration - 0) / real_of_int (py_int (rate * duration))) + 0)
              [0..<nat (py_int (rate * duration))]"
  have lin: "np_linspace 0 duration (py_int (rate * duration)) = Inr ?t"
    using assms(2) by (rule np_linspace_ok)
  have body: "fade_out h data duration rate mode
      = (case (if mode = ''linear'' then Some (map (\<lambda>x. 1 - x / duration) ?t)
               else if mode = ''sine'' then
                 Some (map (\<lambda>x. cos (2 * pi * x * 0.25 / duration)) ?t)
               else if mode = ''sine-squared'' then
                 Some (map (\<lambda>x. (cos (2 * pi * x * 0.25 / duration))\<^sup>2) ?t)
               else None) of
           None \<Rightarrow> (h @ [h ! data], Inl (UnboundLocalError ''fade''))
         | Some fade \<Rightarrow>
            (case np_imul (slice_last (min (length fade) (length (h ! data))) (h ! data))
                 (slice_last (min (length fade) (length (h ! data))) fade) of
               Inl e \<Rightarrow> (h @ [h ! data], Inl e)
             | Inr v \<Rightarrow>
                 (h @ [take (length (h ! data) - length v) (h ! data) @ v], Inr (length h))))"
    unfolding fade_out_def lin
    by (simp add: Let_def split: sum.split)
  from assms(1) consider "mode = ''linear''" | "mode = ''sine''" | "mode = ''sine-squared''"
    by blast
  then show ?thesis
  proof cases
    case 1
    show ?thesis
      unfolding body using 1 by (intro exI [of _ "map (\<lambda>x. 1 - x / duration) ?t"]) simp
  next
    case 2
    show ?thesis
      unfolding body using 2
      by (intro exI [of _ "map (\<lambda>x. cos (2 * pi * x * 0.25 / duration)) ?t"]) simp
  next
    case 3
    show ?thesis
      unfolding body using 3
      by (intro exI [of _ "map (\<lambda>x. (cos (2 * pi * x * 0.25 / duration))\<^sup>2) ?t"]) simp
  qed
qed

lemma fade_out_raises:
  assumes "mode = ''linear'' \<or> mode = ''sine'' \<or> mode = ''sine-squared''"
    and "0 \<le> py_int (rate * duration)"
    and "min (nat (py_int (rate * duration))) (length (h ! data)) = 0"
    and "nat (py_int (rate * duration)) \<noteq> length (h ! data)"
    and "nat (py_int (rate * duration)) \<noteq> 1"
  shows "fade_out h data duration rate mode
       = (h @ [h ! data], Inl (ValueError ''operands could not be broadcast together''))"
proof -
  obtain fade where len: "length fade = nat (py_int (rate * duration))"
    and res: "fade_out h data duration rate mode
       = (case np_imul (slice_last (min (length fade) (length (h ! data))) (h ! data))
                 (slice_last (min (length fade) (length (h ! data))) fade) of
            Inl e \<Rightarrow> (h @ [h ! data], Inl e)
          | Inr v \<Rightarrow> (h @ [take (length (h ! data) - length v) (h ! data) @ v], Inr (length h)))"
    using fade_out_unfold [OF assms(1,2)] by blast
  have n: "min (length fade) (length (h ! data)) = 0"
    using assms(3) by (simp only: len)
  have "np_imul (slice_last 0 (h ! data)) (slice_last 0 fade)
      = Inl (ValueError ''operands could not be broadcast together'')"
    using assms(4,5) by (simp add: slice_last_def np_imul_error len)
  then show ?thesis
    by (simp only: res n sum.case)
qed

lemma fade_out_spec:
  assumes "mode = ''linear'' \<or> mode = ''sine'' \<or> mode = ''sine-squared''"
    and "0 < py_int (rate * duration)"
    and "h ! data \<noteq> []"
    and "data < length h"
  shows "\<exists>h' fade n. fade_out h data duration rate mode = (h', Inr (length h))
     \<and> length fade = nat (py_int (rate * duration))
     \<and> n = min (length fade) (length (h ! data))
     \<and> length h' = Suc (length h)
     \<and> take (length h) h' = h
     \<and> h' ! data = h ! data
     \<and> length (h' ! length h) = length (h ! data)
     \<and> (\<forall>i<length (h ! data).
           h' ! length h ! i
             = (if length (h ! data) - n \<le> i
                then h ! data ! i * fade ! (length fade - n + (i - (length (h ! data) - n)))
                else h ! data ! i))"
proof -
  have nonneg: "0 \<le> py_int (rate * duration)"
    using assms(2) by simp
  obtain fade where len: "length fade = nat (py_int (rate * duration))"
    and res: "fade_out h data duration rate mode
       = (case np_imul (slice_last (min (length fade) (length (h ! data))) (h ! data))
                 (slice_last (min (length fade) (length (h ! data))) fade) of
            Inl e \<Rightarrow> (h @ [h ! data], Inl e)
          | Inr v \<Rightarrow> (h @ [take (length (h ! data) - length v) (h ! data) @ v], Inr (length h)))"
    using fade_out_unfold [OF assms(1) nonneg] by blast
  let ?x = "h ! data"
  let ?n = "min (length fade) (length ?x)"
  let ?v = "map2 (*) (drop (length ?x - ?n) ?x) (drop (length fade - ?n) fade)"
  let ?new = "take (length ?x - ?n) ?x @ ?v"
  have pos: "0 < ?n"
    using assms(2,3) by (simp add: len)
  have lv: "length ?v = ?n"
    by (simp add: min_def)
  have lx: "length (drop (length ?x - ?n) ?x) = ?n"
    by simp
  have lf: "length (drop (length fade - ?n) fade) = ?n"
    by simp
  have ne: "?n \<noteq> 0"
    using pos by arith
  have "np_imul (drop (length ?x - ?n) ?x) (drop (length fade - ?n) fade) = Inr ?v"
    by (rule np_imul_same_length) (simp only: lx lf)
  then have imul: "np_imul (slice_last ?n ?x) (slice_last ?n fade) = Inr ?v"
    unfolding slice_last_def if_not_P [OF ne] .
  have res': "fade_out h data duration rate mode = (h @ [?new], Inr (length h))"
    by (simp only: res imul sum.case lv)
  have nle: "?n \<le> length ?x"
    by simp
  have lk: "length (take (length ?x - ?n) ?x) = length ?x - ?n"
    by simp
  have l: "length ?new = length ?x"
    unfolding length_append lk lv using nle by arith
  have v: "?new ! i = (if length ?x - ?n \<le> i
                then ?x ! i * fade ! (length fade - ?n + (i - (length ?x - ?n)))
                else ?x ! i)"
    if i: "i < length ?x" for i
  proof (cases "length ?x - ?n \<le> i")
    case True
    let ?j = "i - (length ?x - ?n)"
    have j: "?j < ?n"
      using True i nle by arith
    have idx: "length ?x - ?n + ?j = i"
      using True by arith
    have "?new ! i = ?v ! ?j"
      using True by (simp only: nth_append lk) simp
    also have "\<dots> = drop (length ?x - ?n) ?x ! ?j * drop (length fade - ?n) fade ! ?j"
      using j by (simp only: nth_map length_zip lx lf min.idem nth_zip split_conv)
    also have "drop (length ?x - ?n) ?x ! ?j = ?x ! i"
      using nle by (simp only: nth_drop idx)
    also have "drop (length fade - ?n) fade ! ?j = fade ! (length fade - ?n + ?j)"
      by (rule nth_drop) simp
    finally show ?thesis
      using True by (simp only: if_True)
  next
    case False
    then have lt: "i < length ?x - ?n"
      by arith
    have "?new ! i = take (length ?x - ?n) ?x ! i"
      unfolding nth_append lk if_P [OF lt] ..
    also have "\<dots> = ?x ! i"
      by (rule nth_take [OF lt])
    finally show ?thesis
      using False by (simp only: if_False)
  qed
  have old: "(h @ [?new]) ! data = ?x"
    using assms(4) by (simp add: nth_append)
  have fresh: "(h @ [?new]) ! length h = ?new"
    by simp
  show ?thesis
  proof (intro exI [of _ "h @ [?new]"] exI [of _ fade] exI [of _ ?n] conjI allI impI)
    show "fade_out h data duration rate mode = (h @ [?new], Inr (length h))"
      by (rule res')
    show "length fade = nat (py_int (rate * duration))"
      by (rule len)
    show "?n = ?n" ..
    show "length (h @ [?new]) = Suc (length h)"
      by simp
    show "take (length h) (h @ [?new]) = h"
      by simp
    show "(h @ [?new]) ! data = ?x"
      by (rule old)
    show "length ((h @ [?new]) ! length h) = length ?x"
      by (simp only: fresh l)
    fix i
    assume "i < length ?x"
    then show "(h @ [?new]) ! length h ! i
             = (if length ?x - ?n \<le> i
                then ?x ! i * fade ! (length fade - ?n + (i - (length ?x - ?n)))
                else ?x ! i)"
      by (simp only: fresh v)
  qed
qed

subsection \<open>Concrete runs\<close>

lemma fade_in_example:
  "fade_in [[1, 2, 3, 4]] 0 1 2 ''linear'' = ([[1, 2, 3, 4], [0, 1, 3, 4]], Inr 1)"
  by (simp add: fade_in_def np_linspace_def py_int_def Let_def slice_to_def np_imul_def
      eval_nat_numeral)

lemma fade_out_example:
  "fade_out [[1, 2, 3, 4]] 0 1 2 ''linear'' = ([[1, 2, 3, 4], [1, 2, 3, 2]], Inr 1)"
  by (simp add: fade_out_def np_linspace_def py_int_def Let_def slice_last_def np_imul_def
      eval_nat_numeral)

lemma fade_longer_than_signal_example:
  "fade_in [[4, 8]] 0 1 4 ''linear'' = ([[4, 8], [0, 2]], Inr 1)
   \<and> fade_out [[4, 8]] 0 1 4 ''linear'' = ([[4, 8], [2, 2]], Inr 1)"
  by (simp add: fade_in_def fade_out_def np_linspace_def py_int_def Let_def slice_to_def
      slice_last_def np_imul_def eval_nat_numeral)

lemma fade_in_negative_duration:
  "fade_in [[1, 2]] 0 (- 1) 44100 ''linear''
     = ([[1, 2]], Inl (ValueError ''Number of samples must be non-negative.''))"
  by (simp add: fade_in_def np_linspace_def py_int_def)

subsection \<open>Invalid modes\<close>

text \<open>
  Claim C8. For a mode that is none of \<open>linear\<close>, \<open>sine\<close>, \<open>sine-squared\<close>, both fades
  should fail at once with a descriptive error. \<open>fade_in\<close> does (lemma
  \<open>fade_in_invalid_mode\<close>: the ValueError naming the options, the store untouched).
  \<open>fade_out\<close> has no \<open>else\<close> branch: with the default duration and rate and the mode
  \<open>cubic\<close> it first copies the data and then fails reading the unassigned local \<open>fade\<close>,
  where \<open>fade_in\<close> on the same input raises the ValueError.
\<close>

theorem fade_out_invalid_mode_unbound:
  "fade_in [[1, 2]] 0 0.1 44100 ''cubic'' = ([[1, 2]], Inl (ValueError invalid_mode_message))
   \<and> fade_out [[1, 2]] 0 0.1 44100 ''cubic'' = ([[1, 2], [1, 2]], Inl (UnboundLocalError ''fade''))"
proof -
  have n: "0 \<le> py_int (44100 * 0.1)"
    by (simp add: py_int_def)
  have m: "''cubic'' \<noteq> ''linear''" "''cubic'' \<noteq> ''sine''" "''cubic'' \<noteq> ''sine-squared''"
    by simp_all
  show ?thesis
    using fade_in_invalid_mode [OF m n, of "[[1, 2]]" 0] fade_out_invalid_mode [OF m n, of "[[1, 2]]" 0]
    by simp
qed

subsection \<open>Fades of length zero and empty signals\<close>

text \<open>
  Claim C9. For every input array and valid mode both fades should return a new array of
  the input's length and leave the input as it is. \<open>fade_in\<close> does (lemma \<open>fade_in_spec\<close>),
  and so does \<open>fade_out\<close> when the fade and the signal are both non-empty (lemma
  \<open>fade_out_spec\<close>). When \<open>n = 0\<close> the slice \<open>data[-n:]\<close> is the whole array: for the
  signal \<open>[1, 2]\<close> and duration 0 (an empty fade) \<open>fade_out\<close> copies the input, leaves it
  unchanged, and raises the broadcasting ValueError instead of returning, where \<open>fade_in\<close>
  returns the copy at a new address.
\<close>

theorem fade_out_zero_length_fade:
  "fade_out [[1, 2]] 0 0 44100 ''linear''
     = ([[1, 2], [1, 2]], Inl (ValueError ''operands could not be broadcast together''))
   \<and> fade_in [[1, 2]] 0 0 44100 ''linear'' = ([[1, 2], [1, 2]], Inr 1)"
  by (simp add: fade_out_def fade_in_def np_linspace_def py_int_def Let_def slice_last_def
      slice_to_def np_imul_def)

text \<open>
  Claim C10. \<open>fade_in\<close> should scale only the first and \<open>fade_out\<close> only the last
  \<open>min(fade length, data length)\<close> samples, and both should be well-defined when the fade
  is longer than the signal. \<open>fade_in\<close> is (lemma \<open>fade_in_spec\<close>), and \<open>fade_out\<close> is
  whenever that minimum is positive (lemma \<open>fade_out_spec\<close>). For the empty signal and a
  fade of four samples (duration 1 at rate 4) the minimum is 0, \<open>fade[-0:]\<close> is the whole
  fade, and \<open>fade_out\<close> raises the broadcasting ValueError, where \<open>fade_in\<close> returns the
  empty copy.
\<close>

theorem fade_out_empty_signal:
  "fade_out [[]] 0 1 4 ''linear''
     = ([[], []], Inl (ValueError ''operands could not be broadcast together''))
   \<and> fade_in [[]] 0 1 4 ''linear'' = ([[], []], Inr 1)"
  by (simp add: fade_out_def fade_in_def np_linspace_def py_int_def Let_def slice_last_def
      slice_to_def np_imul_def)

end
